theory Spec2Isabelle
  imports Complex_Main "HOL-Library.Sublist" "HOL-Library.Log_Nat"
begin

section \<open>Effects of a server action\<close>

text \<open>
  The server code of the application (\<^verbatim>\<open>app/lib/actions.ts\<close>, \<^verbatim>\<open>auth.ts\<close>,
  \<^verbatim>\<open>middleware.ts\<close>) talks to a relational store, to the cache of the framework and to
  the console, and it leaves a function by \<^verbatim>\<open>return\<close>, by \<^verbatim>\<open>throw\<close> or by falling off
  its end. The model keeps all of this explicit: a world holds the store and the list of
  the effects performed so far, in order; a statement maps a world to a completion and
  the next world.
\<close>

text \<open>
  A JavaScript number: a finite value (held exactly as a rational; the two zeros are not
  told apart), the two infinities, or NaN.
\<close>

datatype js_number = NaN | PosInfinity | NegInfinity | Fin rat

datatype invoice_status = pending | paid

text \<open>
  The statements the tagged template \<^verbatim>\<open>sql\<close> is called with in \<^verbatim>\<open>actions.ts\<close>, with the
  values of their placeholders in the order of the source text.
\<close>

datatype statement =
    InsertInvoice string js_number invoice_status string
  | UpdateInvoice string js_number invoice_status string
  | DeleteInvoice string

datatype event =
    Sql statement
  | SelectUser string
  | RevalidatePath string
  | Redirect string
  | ConsoleLog string
  | ConsoleError string

text \<open>
  What can be thrown: an \<^verbatim>\<open>Error\<close> with its message, the failure of a store statement,
  and the signal with which \<^verbatim>\<open>redirect\<close> of \<^verbatim>\<open>next/navigation\<close> leaves the action.
\<close>

datatype exn =
    Error string
  | StoreFailure string
  | NEXT_REDIRECT string

record 'db world =
  db :: 'db
  trace :: "event list"

datatype 'r completion = Normal | Return 'r | Throw exn

type_synonym ('db, 'r) stmt = "'db world \<Rightarrow> 'r completion \<times> 'db world"

type_synonym ('db, 'a) expr = "'db world \<Rightarrow> (exn + 'a) \<times> 'db world"

definition emit :: "event \<Rightarrow> 'db world \<Rightarrow> 'db world" where
  "emit e w = w\<lparr>trace := trace w @ [e]\<rparr>"

definition skip :: "('db, 'r) stmt" where
  "skip w = (Normal, w)"

definition return_stmt :: "'r \<Rightarrow> ('db, 'r) stmt" where
  "return_stmt v w = (Return v, w)"

definition throw_stmt :: "exn \<Rightarrow> ('db, 'r) stmt" where
  "throw_stmt e w = (Throw e, w)"

text \<open>\<^verbatim>\<open>s1; s2\<close>: the second statement runs only when the first completes normally.\<close>

definition seq :: "('db, 'r) stmt \<Rightarrow> ('db, 'r) stmt \<Rightarrow> ('db, 'r) stmt" where
  "seq s1 s2 w =
     (case s1 w of
        (Normal, w') \<Rightarrow> s2 w'
      | (Return v, w') \<Rightarrow> (Return v, w')
      | (Throw e, w') \<Rightarrow> (Throw e, w'))"

text \<open>
  \<^verbatim>\<open>try { body } catch (error) { handler }\<close>: whatever the body throws reaches the
  handler, the navigation signal included.
\<close>

definition try_catch :: "('db, 'r) stmt \<Rightarrow> (exn \<Rightarrow> ('db, 'r) stmt) \<Rightarrow> ('db, 'r) stmt" where
  "try_catch body handler w =
     (case body w of
        (Throw e, w') \<Rightarrow> handler e w'
      | (c, w') \<Rightarrow> (c, w'))"

text \<open>\<^verbatim>\<open>const x = await e; rest\<close>: a rejected promise is rethrown at the \<^verbatim>\<open>await\<close>.\<close>

definition await :: "('db, 'a) expr \<Rightarrow> ('a \<Rightarrow> ('db, 'r) stmt) \<Rightarrow> ('db, 'r) stmt" where
  "await e rest w =
     (case e w of
        (Inl x, w') \<Rightarrow> (Throw x, w')
      | (Inr v, w') \<Rightarrow> rest v w')"

text \<open>
  The store is outside the repository: \<open>exec\<close> says what a statement does to it, either
  failing with a message or giving the next store. Every theorem below holds for every
  such store.
\<close>

definition sql :: "(statement \<Rightarrow> 'db \<Rightarrow> string + 'db) \<Rightarrow> statement \<Rightarrow> ('db, unit) expr" where
  "sql exec q w =
     (case exec q (db w) of
        Inl err \<Rightarrow> (Inl (StoreFailure err), emit (Sql q) w)
      | Inr d \<Rightarrow> (Inr (), emit (Sql q) (w\<lparr>db := d\<rparr>)))"

definition revalidatePath :: "string \<Rightarrow> ('db, 'r) stmt" where
  "revalidatePath p w = (Normal, emit (RevalidatePath p) w)"

definition redirect :: "string \<Rightarrow> ('db, 'r) stmt" where
  "redirect p w = (Throw (NEXT_REDIRECT p), emit (Redirect p) w)"

section \<open>Numbers\<close>

text \<open>
  \<^verbatim>\<open>z.coerce.number()\<close> applies \<^verbatim>\<open>Number(...)\<close> to its input, and \<^verbatim>\<open>amount * 100\<close> is a
  multiplication of IEEE 754 doubles. Both are modelled on exact rationals with the
  rounding to the nearest double (ties to even) written out: \<open>binary64 q\<close> is the double
  nearest to \<open>q\<close>, gradual underflow and overflow to infinity included.
\<close>

definition pow2 :: "int \<Rightarrow> rat" where
  "pow2 e = (if 0 \<le> e then 2 ^ nat e else 1 / 2 ^ nat (- e))"

definition pow10 :: "int \<Rightarrow> rat" where
  "pow10 e = (if 0 \<le> e then 10 ^ nat e else 1 / 10 ^ nat (- e))"

text \<open>The exponent of a positive rational: \<open>2 ^ ilog2 a \<le> a < 2 ^ (ilog2 a + 1)\<close>.\<close>

definition ilog2 :: "rat \<Rightarrow> int" where
  "ilog2 a =
     (let (n, d) = quotient_of a; c = bitlen n - bitlen d
      in if pow2 c \<le> a then c else c - 1)"

definition round_half_even :: "rat \<Rightarrow> int" where
  "round_half_even q =
     (let f = \<lfloor>q\<rfloor>; r = q - of_int f
      in if r < 1 / 2 then f else if 1 / 2 < r then f + 1 else if even f then f else f + 1)"

definition binary64 :: "rat \<Rightarrow> js_number" where
  "binary64 q =
     (if q = 0 then Fin 0
      else let a = \<bar>q\<bar>;
               e = max (ilog2 a) (- 1022);
               ulp = pow2 (e - 52);
               r = of_int (round_half_even (a / ulp)) * ulp
           in if pow2 1024 \<le> r then (if 0 < q then PosInfinity else NegInfinity)
              else Fin (sgn q * r))"

text \<open>\<^verbatim>\<open>x * y\<close> on numbers, for a finite right operand (here the literal \<^verbatim>\<open>100\<close>).\<close>

fun js_times :: "js_number \<Rightarrow> rat \<Rightarrow> js_number" where
  "js_times NaN y = NaN"
| "js_times PosInfinity y = (if y = 0 then NaN else if 0 < y then PosInfinity else NegInfinity)"
| "js_times NegInfinity y = (if y = 0 then NaN else if 0 < y then NegInfinity else PosInfinity)"
| "js_times (Fin x) y = binary64 (x * y)"

text \<open>\<^verbatim>\<open>x > y\<close> on numbers, for a finite right operand: false when \<open>x\<close> is NaN.\<close>

fun js_gt :: "js_number \<Rightarrow> rat \<Rightarrow> bool" where
  "js_gt NaN y = False"
| "js_gt PosInfinity y = True"
| "js_gt NegInfinity y = False"
| "js_gt (Fin x) y = (y < x)"

subsection \<open>Number applied to a string\<close>

text \<open>
  ECMAScript's StringToNumber: white space is trimmed from both ends, the empty string is
  0, a string of the grammar StrNumericLiteral is its value, anything else is NaN. A
  character of the model is a UTF-16 code unit below 256.
\<close>

definition StrWhiteSpaceChar :: "char \<Rightarrow> bool" where
  "StrWhiteSpaceChar c = (of_char c \<in> set [9, 10, 11, 12, 13, 32, 160 :: nat])"

definition trim :: "string \<Rightarrow> string" where
  "trim s = rev (dropWhile StrWhiteSpaceChar (rev (dropWhile StrWhiteSpaceChar s)))"

definition digit_value :: "nat \<Rightarrow> char \<Rightarrow> nat option" where
  "digit_value base c =
     (let n = of_char c;
          v = (if 48 \<le> n \<and> n \<le> 57 then Some (n - 48)
               else if 97 \<le> n \<and> n \<le> 102 then Some (n - 87)
               else if 65 \<le> n \<and> n \<le> 70 then Some (n - 55)
               else None)
      in case v of None \<Rightarrow> None | Some d \<Rightarrow> if d < base then Some d else None)"

fun digits_from :: "nat \<Rightarrow> nat \<Rightarrow> string \<Rightarrow> nat option" where
  "digits_from base acc [] = Some acc"
| "digits_from base acc (c # cs) =
     (case digit_value base c of
        None \<Rightarrow> None
      | Some d \<Rightarrow> digits_from base (acc * base + d) cs)"

text \<open>The value of a run of decimal digits; the empty run counts 0.\<close>

definition digits_nat :: "string \<Rightarrow> nat" where
  "digits_nat s = (case digits_from 10 0 s of None \<Rightarrow> 0 | Some n \<Rightarrow> n)"

text \<open>A non-empty run of digits of the base, read as a number.\<close>

definition Digits :: "nat \<Rightarrow> string \<Rightarrow> nat option" where
  "Digits base s = (if s = [] then None else digits_from base 0 s)"

definition is_digit :: "char \<Rightarrow> bool" where
  "is_digit c = (digit_value 10 c \<noteq> None)"

definition SignedInteger :: "string \<Rightarrow> int option" where
  "SignedInteger s =
     (case s of
        c # t \<Rightarrow>
          if c = CHR ''+'' then map_option int (Digits 10 t)
          else if c = CHR ''-'' then map_option (\<lambda>n. - int n) (Digits 10 t)
          else map_option int (Digits 10 s)
      | [] \<Rightarrow> None)"

definition ExponentPart_opt :: "string \<Rightarrow> int option" where
  "ExponentPart_opt s =
     (case s of
        [] \<Rightarrow> Some 0
      | c # t \<Rightarrow> if c = CHR ''e'' \<or> c = CHR ''E'' then SignedInteger t else None)"

text \<open>
  StrUnsignedDecimalLiteral but \<^verbatim>\<open>Infinity\<close>: digits, then a dot and digits, then an
  exponent, with a digit on at least one side of the dot. The result is the exact value.
\<close>

definition StrUnsignedDecimalLiteral :: "string \<Rightarrow> rat option" where
  "StrUnsignedDecimalLiteral s =
     (let ip = takeWhile is_digit s;
          r1 = dropWhile is_digit s;
          fp = (case r1 of c # t \<Rightarrow> if c = CHR ''.'' then takeWhile is_digit t else [] | [] \<Rightarrow> []);
          r2 = (case r1 of c # t \<Rightarrow> if c = CHR ''.'' then dropWhile is_digit t else r1 | [] \<Rightarrow> [])
      in if ip = [] \<and> fp = [] then None
         else case ExponentPart_opt r2 of
                None \<Rightarrow> None
              | Some e \<Rightarrow>
                  Some ((of_nat (digits_nat ip) + of_nat (digits_nat fp) / 10 ^ length fp)
                        * pow10 e))"

definition StrDecimalLiteral :: "string \<Rightarrow> js_number" where
  "StrDecimalLiteral s =
     (let neg = (case s of c # t \<Rightarrow> c = CHR ''-'' | [] \<Rightarrow> False);
          u = (case s of c # t \<Rightarrow> if c = CHR ''+'' \<or> c = CHR ''-'' then t else s | [] \<Rightarrow> [])
      in if u = ''Infinity'' then (if neg then NegInfinity else PosInfinity)
         else case StrUnsignedDecimalLiteral u of
                None \<Rightarrow> NaN
              | Some q \<Rightarrow> binary64 (if neg then - q else q))"

definition NonDecimalIntegerLiteral :: "string \<Rightarrow> nat option" where
  "NonDecimalIntegerLiteral s =
     (case s of
        z # x # t \<Rightarrow>
          if z \<noteq> CHR ''0'' then None
          else if x = CHR ''x'' \<or> x = CHR ''X'' then Digits 16 t
          else if x = CHR ''o'' \<or> x = CHR ''O'' then Digits 8 t
          else if x = CHR ''b'' \<or> x = CHR ''B'' then Digits 2 t
          else None
      | _ \<Rightarrow> None)"

definition StringToNumber :: "string \<Rightarrow> js_number" where
  "StringToNumber str =
     (let s = trim str
      in if s = [] then Fin 0
         else case NonDecimalIntegerLiteral s of
                Some n \<Rightarrow> binary64 (of_nat n)
              | None \<Rightarrow> StrDecimalLiteral s)"

text \<open>
  \<^verbatim>\<open>Number(v)\<close> for what \<^verbatim>\<open>formData.get\<close> gives: \<^verbatim>\<open>null\<close> (the field is absent) is 0, a
  string goes through StringToNumber.
\<close>

definition Number :: "string option \<Rightarrow> js_number" where
  "Number v = (case v of None \<Rightarrow> Fin 0 | Some s \<Rightarrow> StringToNumber s)"

section \<open>The clock\<close>

text \<open>
  \<^verbatim>\<open>new Date()\<close> is the instant of the call, in UTC; \<^verbatim>\<open>toISOString\<close> renders it as
  \<^verbatim>\<open>YYYY-MM-DDTHH:mm:ss.sssZ\<close>, with a sign and six digits for a year beyond 9999.
\<close>

record utc_instant =
  year :: nat
  month :: nat
  day :: nat
  hours :: nat
  minutes :: nat
  seconds :: nat
  milliseconds :: nat

fun decimal :: "nat \<Rightarrow> string" where
  "decimal n =
     (if n < 10 then [char_of (48 + n)]
      else decimal (n div 10) @ [char_of (48 + n mod 10)])"

declare decimal.simps [simp del]

definition pad :: "nat \<Rightarrow> nat \<Rightarrow> string" where
  "pad width n = replicate (width - length (decimal n)) CHR ''0'' @ decimal n"

definition year_string :: "utc_instant \<Rightarrow> string" where
  "year_string t = (if year t \<le> 9999 then pad 4 (year t) else ''+'' @ pad 6 (year t))"

definition toISOString :: "utc_instant \<Rightarrow> string" where
  "toISOString t =
     year_string t @ ''-'' @ pad 2 (month t) @ ''-'' @ pad 2 (day t) @ ''T''
     @ pad 2 (hours t) @ '':'' @ pad 2 (minutes t) @ '':'' @ pad 2 (seconds t)
     @ ''.'' @ pad 3 (milliseconds t) @ ''Z''"

text \<open>\<^verbatim>\<open>s.split(c)[0]\<close> for a separator of one character: what stands before its first occurrence.\<close>

definition split_0 :: "char \<Rightarrow> string \<Rightarrow> string" where
  "split_0 c s = takeWhile (\<lambda>x. x \<noteq> c) s"

section \<open>The form schema\<close>

text \<open>
  \<^verbatim>\<open>FormData\<close> is a list of entries; \<^verbatim>\<open>get\<close> gives the first value of a name, or
  \<^verbatim>\<open>null\<close>. (File entries are not modelled: the forms of the application send strings.)
\<close>

type_synonym FormData = "(string \<times> string) list"

definition formData_get :: "FormData \<Rightarrow> string \<Rightarrow> string option" where
  "formData_get formData name = map_of formData name"

text \<open>An issue of a failed parse: the key of the field and the message.\<close>

type_synonym issue = "string \<times> string"

text \<open>\<^verbatim>\<open>z.string({ invalid_type_error })\<close>: any string passes, \<^verbatim>\<open>null\<close> is a type error.\<close>

definition z_string :: "string \<Rightarrow> string \<Rightarrow> string option \<Rightarrow> issue list + string" where
  "z_string path invalid_type_error v =
     (case v of None \<Rightarrow> Inl [(path, invalid_type_error)] | Some s \<Rightarrow> Inr s)"

text \<open>
  \<^verbatim>\<open>z.coerce.number().gt(bound, { message })\<close>: the input goes through \<^verbatim>\<open>Number\<close>; NaN
  is a type error with the library's message and ends the parse of the field; otherwise
  the bound is checked.
\<close>

definition z_coerce_number_gt ::
  "string \<Rightarrow> rat \<Rightarrow> string \<Rightarrow> string option \<Rightarrow> issue list + js_number" where
  "z_coerce_number_gt path bound msg v =
     (let n = Number v
      in if n = NaN then Inl [(path, ''Expected number, received nan'')]
         else if js_gt n bound then Inr n
         else Inl [(path, msg)])"

text \<open>
  \<^verbatim>\<open>z.enum(['pending', 'paid'], { invalid_type_error })\<close>: \<^verbatim>\<open>null\<close> is a type error, a
  string outside the enumeration gets the library's message.
\<close>

definition z_enum_status :: "string \<Rightarrow> string \<Rightarrow> string option \<Rightarrow> issue list + invoice_status" where
  "z_enum_status path invalid_type_error v =
     (case v of
        None \<Rightarrow> Inl [(path, invalid_type_error)]
      | Some s \<Rightarrow>
          if s = ''pending'' then Inr pending
          else if s = ''paid'' then Inr paid
          else Inl [(path, ''Invalid enum value. Expected '' @ [CHR 0x27] @ ''pending'' @ [CHR 0x27]
                      @ '' | '' @ [CHR 0x27] @ ''paid'' @ [CHR 0x27] @ '', received ''
                      @ [CHR 0x27] @ s @ [CHR 0x27])])"

record invoice_fields =
  customerId :: string
  amount :: js_number
  status :: invoice_status

definition issues_of :: "issue list + 'a \<Rightarrow> issue list" where
  "issues_of r = (case r of Inl is \<Rightarrow> is | Inr _ \<Rightarrow> [])"

text \<open>
  \<^verbatim>\<open>FormSchema.omit({ id: true, date: true }).safeParse({ customerId, amount, status })\<close>:
  every field is parsed, and the issues of all of them are collected in the order of the
  schema.
\<close>

definition FormSchema_safeParse ::
  "string option \<Rightarrow> string option \<Rightarrow> string option \<Rightarrow> issue list + invoice_fields" where
  "FormSchema_safeParse c a s =
     (let pc = z_string ''customerId'' ''Please select a customer.'' c;
          pa = z_coerce_number_gt ''amount'' 0 ''Please enter an amount greater than $0.'' a;
          ps = z_enum_status ''status'' ''Please select an invoice status'' s
      in case (pc, pa, ps) of
           (Inr c', Inr a', Inr s') \<Rightarrow> Inr \<lparr>customerId = c', amount = a', status = s'\<rparr>
         | _ \<Rightarrow> Inl (issues_of pc @ issues_of pa @ issues_of ps))"

definition CreateInvoice_safeParse ::
  "string option \<Rightarrow> string option \<Rightarrow> string option \<Rightarrow> issue list + invoice_fields" where
  "CreateInvoice_safeParse = FormSchema_safeParse"

definition UpdateInvoice_safeParse ::
  "string option \<Rightarrow> string option \<Rightarrow> string option \<Rightarrow> issue list + invoice_fields" where
  "UpdateInvoice_safeParse = FormSchema_safeParse"

text \<open>
  \<^verbatim>\<open>error.flatten().fieldErrors\<close>: the messages of each key, in the order of the issues.
\<close>

definition add_issue :: "(string \<rightharpoonup> string list) \<Rightarrow> issue \<Rightarrow> (string \<rightharpoonup> string list)" where
  "add_issue m i =
     (case i of (path, msg) \<Rightarrow> m(path \<mapsto> (case m path of None \<Rightarrow> [] | Some ms \<Rightarrow> ms) @ [msg]))"

definition fieldErrors :: "issue list \<Rightarrow> (string \<rightharpoonup> string list)" where
  "fieldErrors issues = foldl add_issue Map.empty issues"

section \<open>The invoice actions\<close>

text \<open>The \<^verbatim>\<open>State\<close> type of \<^verbatim>\<open>actions.ts\<close>; an object is a map from its keys.\<close>

record state =
  errors :: "(string \<rightharpoonup> string list) option"
  message :: "string option"

text \<open>The statements \<^verbatim>\<open>createInvoice\<close> and \<^verbatim>\<open>updateInvoice\<close> hand to the store.\<close>

definition insert_statement :: "utc_instant \<Rightarrow> invoice_fields \<Rightarrow> statement" where
  "insert_statement now d =
     (let amountInCents = js_times (amount d) 100;
          date = split_0 CHR ''T'' (toISOString now)
      in InsertInvoice (customerId d) amountInCents (status d) date)"

definition update_statement :: "string \<Rightarrow> invoice_fields \<Rightarrow> statement" where
  "update_statement invoice_id d =
     (let amountInCents = js_times (amount d) 100
      in UpdateInvoice (customerId d) amountInCents (status d) invoice_id)"

definition createInvoice ::
  "(statement \<Rightarrow> 'db \<Rightarrow> string + 'db) \<Rightarrow> utc_instant \<Rightarrow> state \<Rightarrow> FormData \<Rightarrow> ('db, state) stmt" where
  "createInvoice exec now prevState formData =
     (case CreateInvoice_safeParse (formData_get formData ''customerId'')
             (formData_get formData ''amount'') (formData_get formData ''status'') of
        Inl issues \<Rightarrow>
          return_stmt \<lparr>errors = Some (fieldErrors issues),
                       message = Some ''Missing Fields. Failed to Create Invoice.''\<rparr>
      | Inr d \<Rightarrow>
          seq (try_catch
                 (await (sql exec (insert_statement now d)) (\<lambda>_. skip))
                 (\<lambda>error. return_stmt
                    \<lparr>errors = None, message = Some ''Database Error: Failed to create invoice.''\<rparr>))
         (seq (revalidatePath ''/dashboard/invoices'')
              (redirect ''/dashboard/invoices'')))"

definition updateInvoice ::
  "(statement \<Rightarrow> 'db \<Rightarrow> string + 'db) \<Rightarrow> string \<Rightarrow> state \<Rightarrow> FormData \<Rightarrow> ('db, state) stmt" where
  "updateInvoice exec invoice_id prevState formData =
     (case UpdateInvoice_safeParse (formData_get formData ''customerId'')
             (formData_get formData ''amount'') (formData_get formData ''status'') of
        Inl issues \<Rightarrow>
          return_stmt \<lparr>errors = Some (fieldErrors issues),
                       message = Some ''Missing Fields. Failed to Update Invoice.''\<rparr>
      | Inr d \<Rightarrow>
          seq (try_catch
                 (await (sql exec (update_statement invoice_id d)) (\<lambda>_. skip))
                 (\<lambda>error. return_stmt
                    \<lparr>errors = None, message = Some ''Database Error: Failed to Update Invoice.''\<rparr>))
         (seq (revalidatePath ''/dashboard/invoices'')
              (redirect ''/dashboard/invoices'')))"

text \<open>
  \<^verbatim>\<open>deleteInvoice\<close> as it stands: the \<^verbatim>\<open>throw\<close> is its first statement, the
  \<^verbatim>\<open>try\<close> block follows it.
\<close>

definition deleteInvoice ::
  "(statement \<Rightarrow> 'db \<Rightarrow> string + 'db) \<Rightarrow> string \<Rightarrow> ('db, state) stmt" where
  "deleteInvoice exec invoice_id =
     seq (throw_stmt (Error ''failed to delete invoice''))
       (try_catch
          (await (sql exec (DeleteInvoice invoice_id)) (\<lambda>_.
           seq (revalidatePath ''/dashboard/invoices'')
               (return_stmt \<lparr>errors = None, message = Some ''Deleted Invoice.''\<rparr>)))
          (\<lambda>error. return_stmt
             \<lparr>errors = None, message = Some ''Database Error: Failed to Delete Invoice.''\<rparr>))"

section \<open>Credential verification\<close>

text \<open>The \<^verbatim>\<open>User\<close> rows of the store, and what the sign-in form submits.\<close>

record User =
  user_id :: string
  user_name :: string
  user_email :: string
  user_password :: string

text \<open>A field of the credentials is \<open>None\<close> when it is absent or not a string.\<close>

record credentials =
  email :: "string option"
  password :: "string option"

text \<open>
  The \<^verbatim>\<open>SELECT\<close> of \<^verbatim>\<open>getUser\<close>: \<open>select\<close> says what the store answers for an email,
  a failure or the rows.
\<close>

definition sql_users ::
  "(string \<Rightarrow> 'db \<Rightarrow> string + User list) \<Rightarrow> string \<Rightarrow> ('db, User list) expr" where
  "sql_users select e w =
     (case select e (db w) of
        Inl err \<Rightarrow> (Inl (StoreFailure err), emit (SelectUser e) w)
      | Inr rows \<Rightarrow> (Inr rows, emit (SelectUser e) w))"

definition console_log :: "string \<Rightarrow> ('db, 'r) stmt" where
  "console_log m w = (Normal, emit (ConsoleLog m) w)"

definition console_error :: "string \<Rightarrow> ('db, 'r) stmt" where
  "console_error m w = (Normal, emit (ConsoleError m) w)"

text \<open>
  Calling an async function and awaiting it: its \<^verbatim>\<open>return\<close> value, what it throws, or
  \<^verbatim>\<open>undefined\<close> when it falls off its end.
\<close>

definition call :: "'a \<Rightarrow> ('db, 'a) stmt \<Rightarrow> ('db, 'a) expr" where
  "call undefined_value body w =
     (case body w of
        (Normal, w') \<Rightarrow> (Inr undefined_value, w')
      | (Return v, w') \<Rightarrow> (Inr v, w')
      | (Throw e, w') \<Rightarrow> (Inl e, w'))"

text \<open>\<^verbatim>\<open>user.rows[0]\<close>: \<^verbatim>\<open>undefined\<close> (here \<open>None\<close>) when there is no row.\<close>

definition rows_0 :: "User list \<Rightarrow> User option" where
  "rows_0 rows = (case rows of [] \<Rightarrow> None | u # _ \<Rightarrow> Some u)"

definition getUser ::
  "(string \<Rightarrow> 'db \<Rightarrow> string + User list) \<Rightarrow> string \<Rightarrow> ('db, User option) stmt" where
  "getUser select e =
     try_catch
       (await (sql_users select e) (\<lambda>rows. return_stmt (rows_0 rows)))
       (\<lambda>error. seq (console_error ''Failed to fetch user:'')
                     (throw_stmt (Error ''Failed to fetch user.'')))"

text \<open>
  \<^verbatim>\<open>z.object({ email: z.string().email(), password: z.string().min(6) }).safeParse\<close>.
  The test of \<^verbatim>\<open>.email()\<close> is the library's; it is the parameter \<open>isEmail\<close>. The length
  of a string counts its code units.
\<close>

definition z_string_email :: "(string \<Rightarrow> bool) \<Rightarrow> string option \<Rightarrow> issue list + string" where
  "z_string_email isEmail v =
     (case v of
        None \<Rightarrow> Inl [(''email'', ''Required'')]
      | Some s \<Rightarrow> if isEmail s then Inr s else Inl [(''email'', ''Invalid email'')])"

definition z_string_min :: "nat \<Rightarrow> string option \<Rightarrow> issue list + string" where
  "z_string_min n v =
     (case v of
        None \<Rightarrow> Inl [(''password'', ''Required'')]
      | Some s \<Rightarrow>
          if n \<le> length s then Inr s
          else Inl [(''password'', ''String must contain at least '' @ decimal n @ '' character(s)'')])"

definition credentials_safeParse ::
  "(string \<Rightarrow> bool) \<Rightarrow> credentials \<Rightarrow> issue list + string \<times> string" where
  "credentials_safeParse isEmail c =
     (let pe = z_string_email isEmail (email c);
          pp = z_string_min 6 (password c)
      in case (pe, pp) of
           (Inr e, Inr p) \<Rightarrow> Inr (e, p)
         | _ \<Rightarrow> Inl (issues_of pe @ issues_of pp))"

text \<open>
  \<^verbatim>\<open>authorize\<close> of the credentials provider. \<open>compare\<close> is \<^verbatim>\<open>bcrypt.compare\<close>: whether a
  password fits a stored hash. The function returns the user or \<^verbatim>\<open>null\<close> (here \<open>None\<close>).
\<close>

definition authorize ::
  "(string \<Rightarrow> bool) \<Rightarrow> (string \<Rightarrow> string \<Rightarrow> bool) \<Rightarrow> (string \<Rightarrow> 'db \<Rightarrow> string + User list)
   \<Rightarrow> credentials \<Rightarrow> ('db, User option) stmt" where
  "authorize isEmail compare select c =
     (let parsedCredentials = credentials_safeParse isEmail c
      in seq (case parsedCredentials of
                Inr (e, p) \<Rightarrow>
                  await (call None (getUser select e)) (\<lambda>user.
                    case user of
                      None \<Rightarrow> return_stmt None
                    | Some u \<Rightarrow>
                        (let passwordsMatch = compare p (user_password u)
                         in if passwordsMatch then return_stmt (Some u) else skip))
              | Inl _ \<Rightarrow> skip)
         (seq (console_log ''Invalid Credentials'') (return_stmt None)))"

section \<open>The route guard's matcher\<close>

text \<open>
  The regular expressions the matcher of \<^verbatim>\<open>middleware.ts\<close> is written with: a literal,
  \<^verbatim>\<open>.*\<close>, concatenation, alternation, a negative lookahead and the end of the input.
\<close>

datatype regex =
    Lit string
  | DotStar
  | Cat regex regex
  | Alt regex regex
  | NegLookahead regex
  | End

text \<open>\<^verbatim>\<open>.\<close> matches every character but a line terminator.\<close>

definition LineTerminator :: "char \<Rightarrow> bool" where
  "LineTerminator c = (c = CHR 0x0A \<or> c = CHR 0x0D)"

text \<open>What can be left of the input after \<^verbatim>\<open>.*\<close> has matched at its start.\<close>

fun dot_star :: "string \<Rightarrow> string list" where
  "dot_star [] = [[]]"
| "dot_star (c # cs) = (c # cs) # (if LineTerminator c then [] else dot_star cs)"

text \<open>
  \<open>after r s\<close>: every rest of \<open>s\<close> that a match of \<open>r\<close> at the start of \<open>s\<close> can leave.
\<close>

primrec after :: "regex \<Rightarrow> string \<Rightarrow> string list" where
  "after (Lit t) s = (if prefix t s then [drop (length t) s] else [])"
| "after DotStar s = dot_star s"
| "after (Cat a b) s = concat (map (after b) (after a s))"
| "after (Alt a b) s = after a s @ after b s"
| "after (NegLookahead a) s = (if after a s = [] then [s] else [])"
| "after End s = (if s = [] then [[]] else [])"

text \<open>
  The framework compiles a matcher to an expression anchored at both ends: a path is
  matched when the whole of it is.
\<close>

definition matches :: "regex \<Rightarrow> string \<Rightarrow> bool" where
  "matches r s = ([] \<in> set (after r s))"

text \<open>
  \<^verbatim>\<open>config.matcher\<close>: \<^verbatim>\<open>/((?!api|_next/static|_next/image|.*\.png$).*)\<close> (the source
  writes the backslash twice, inside a string literal).
\<close>

definition config_matcher :: regex where
  "config_matcher =
     Cat (Lit ''/'')
       (Cat (NegLookahead
               (Alt (Lit ''api'')
               (Alt (Lit ''_next/static'')
               (Alt (Lit ''_next/image'')
                    (Cat DotStar (Cat (Lit ''.png'') End))))))
            DotStar)"

text \<open>
  A request, and what the framework does with the default export of \<^verbatim>\<open>middleware.ts\<close>:
  it runs the guard \<open>auth\<close> on the paths the matcher accepts and lets every other request
  through without running it. The guard is the only reader of the session token.
\<close>

record request =
  pathname :: string
  session_token :: "string option"

definition middleware ::
  "(request \<Rightarrow> 's \<Rightarrow> 'r \<times> 's) \<Rightarrow> request \<Rightarrow> 's \<Rightarrow> 'r option \<times> 's" where
  "middleware auth req s =
     (if matches config_matcher (pathname req)
      then (case auth req s of (r, s') \<Rightarrow> (Some r, s'))
      else (None, s))"

section \<open>Sample inputs\<close>

text \<open>
  Concrete inputs at which the theorems below are exercised: a form, an instant, a store
  that keeps the statements it was given and a store that refuses every statement.
\<close>

definition sample_now :: utc_instant where
  "sample_now = \<lparr>year = 2024, month = 3, day = 9, hours = 7, minutes = 5, seconds = 1, milliseconds = 42\<rparr>"

definition sample_form :: FormData where
  "sample_form = [(''customerId'', ''c-42''), (''amount'', ''125.50''), (''status'', ''pending'')]"

definition blank_amount_form :: FormData where
  "blank_amount_form = [(''customerId'', ''c-42''), (''amount'', ''''), (''status'', ''pending'')]"

definition abc_amount_form :: FormData where
  "abc_amount_form = [(''customerId'', ''c-42''), (''amount'', ''abc''), (''status'', ''pending'')]"

definition sample_fields :: invoice_fields where
  "sample_fields = \<lparr>customerId = ''c-42'', amount = Fin (251 / 2), status = pending\<rparr>"

definition no_state :: state where
  "no_state = \<lparr>errors = None, message = None\<rparr>"

definition logging_store :: "statement \<Rightarrow> statement list \<Rightarrow> string + statement list" where
  "logging_store q d = Inr (d @ [q])"

definition failing_store :: "statement \<Rightarrow> statement list \<Rightarrow> string + statement list" where
  "failing_store q d = Inl ''connection refused''"

definition sample_world :: "statement list world" where
  "sample_world = \<lparr>db = [], trace = []\<rparr>"

text \<open>
  Two registered users, a stand-in for the comparison of a password with a hash, a test
  for emails, a store of users that answers and one that is down, and a guard that
  records the requests it sees.
\<close>

definition sample_user :: User where
  "sample_user = \<lparr>user_id = ''410544b2'', user_name = ''User'',
     user_email = ''user@nextmail.com'', user_password = ''hash(123456)''\<rparr>"

definition short_password_user :: User where
  "short_password_user = \<lparr>user_id = ''76d65c26'', user_name = ''Short'',
     user_email = ''short@nextmail.com'', user_password = ''hash(12345)''\<rparr>"

definition sample_compare :: "string \<Rightarrow> string \<Rightarrow> bool" where
  "sample_compare p h = (h = ''hash('' @ p @ '')'')"

definition sample_isEmail :: "string \<Rightarrow> bool" where
  "sample_isEmail s = (CHR ''@'' \<in> set s)"

definition sample_select :: "string \<Rightarrow> User list \<Rightarrow> string + User list" where
  "sample_select e d = Inr (filter (\<lambda>u. user_email u = e) d)"

definition unavailable_select :: "string \<Rightarrow> User list \<Rightarrow> string + User list" where
  "unavailable_select e d = Inl ''connection refused''"

definition users_world :: "User list world" where
  "users_world = \<lparr>db = [sample_user, short_password_user], trace = []\<rparr>"

definition recording_guard :: "request \<Rightarrow> string list \<Rightarrow> bool \<times> string list" where
  "recording_guard req s = (session_token req \<noteq> None, s @ [pathname req])"

section \<open>Properties of the invoice actions\<close>

text \<open>
  C1. For every invoice id, every store and every world, \<^verbatim>\<open>deleteInvoice\<close> throws the
  error \<^verbatim>\<open>failed to delete invoice\<close> and leaves the world as it was: the store is the
  same, and no statement, no cache invalidation and no redirect was added to the trace.
\<close>

theorem deleteInvoice_faults_first:
  "deleteInvoice exec invoice_id w = (Throw (Error ''failed to delete invoice''), w)"
  by (simp add: deleteInvoice_def seq_def throw_stmt_def)

subsection \<open>The two ways through an action\<close>

text \<open>
  An action whose form fails the schema returns at once. One whose form passes runs the
  statement inside the \<^verbatim>\<open>try\<close> block and then, outside of it, the invalidation and the
  redirect.
\<close>

lemma createInvoice_invalid:
  assumes "CreateInvoice_safeParse (formData_get fd ''customerId'')
             (formData_get fd ''amount'') (formData_get fd ''status'') = Inl issues"
  shows "createInvoice exec now prev fd w =
           (Return \<lparr>errors = Some (fieldErrors issues),
                    message = Some ''Missing Fields. Failed to Create Invoice.''\<rparr>, w)"
  using assms by (simp add: createInvoice_def return_stmt_def)

lemma updateInvoice_invalid:
  assumes "UpdateInvoice_safeParse (formData_get fd ''customerId'')
             (formData_get fd ''amount'') (formData_get fd ''status'') = Inl issues"
  shows "updateInvoice exec i prev fd w =
           (Return \<lparr>errors = Some (fieldErrors issues),
                    message = Some ''Missing Fields. Failed to Update Invoice.''\<rparr>, w)"
  using assms by (simp add: updateInvoice_def return_stmt_def)

lemma persist_fails:
  assumes "exec q (db w) = Inl err"
  shows "seq (try_catch (await (sql exec q) (\<lambda>_. skip)) (\<lambda>error. return_stmt r))
           (seq (revalidatePath p) (redirect p)) w = (Return r, emit (Sql q) w)"
  using assms
  by (simp add: seq_def try_catch_def await_def sql_def return_stmt_def)

lemma persist_succeeds:
  assumes "exec q (db w) = Inr d"
  shows "seq (try_catch (await (sql exec q) (\<lambda>_. skip)) (\<lambda>error. return_stmt r))
           (seq (revalidatePath p) (redirect p)) w =
         (Throw (NEXT_REDIRECT p),
          emit (Redirect p) (emit (RevalidatePath p) (emit (Sql q) (w\<lparr>db := d\<rparr>))))"
  using assms
  by (simp add: seq_def try_catch_def await_def sql_def skip_def revalidatePath_def redirect_def)

lemma createInvoice_valid:
  assumes "CreateInvoice_safeParse (formData_get fd ''customerId'')
             (formData_get fd ''amount'') (formData_get fd ''status'') = Inr d"
  shows "createInvoice exec now prev fd w =
           seq (try_catch (await (sql exec (insert_statement now d)) (\<lambda>_. skip))
                  (\<lambda>error. return_stmt
                     \<lparr>errors = None, message = Some ''Database Error: Failed to create invoice.''\<rparr>))
             (seq (revalidatePath ''/dashboard/invoices'') (redirect ''/dashboard/invoices'')) w"
  using assms by (simp add: createInvoice_def)

lemma updateInvoice_valid:
  assumes "UpdateInvoice_safeParse (formData_get fd ''customerId'')
             (formData_get fd ''amount'') (formData_get fd ''status'') = Inr d"
  shows "updateInvoice exec i prev fd w =
           seq (try_catch (await (sql exec (update_statement i d)) (\<lambda>_. skip))
                  (\<lambda>error. return_stmt
                     \<lparr>errors = None, message = Some ''Database Error: Failed to Update Invoice.''\<rparr>))
             (seq (revalidatePath ''/dashboard/invoices'') (redirect ''/dashboard/invoices'')) w"
  using assms by (simp add: updateInvoice_def)

subsection \<open>The date of an instant\<close>

text \<open>
  The digits of a number are characters between \<^verbatim>\<open>0\<close> and \<^verbatim>\<open>9\<close>, so the first \<^verbatim>\<open>T\<close> of
  an ISO string is the one that ends the date.
\<close>

lemma decimal_digits: "c \<in> set (decimal n) \<Longrightarrow> 48 \<le> (of_char c :: nat) \<and> (of_char c :: nat) \<le> 57"
proof (induction n rule: decimal.induct)
  case (1 n)
  show ?case
  proof (cases "n < 10")
    case True
    then have "decimal n = [char_of (48 + n)]"
      by (subst decimal.simps) simp
    with "1.prems" have "c = char_of (48 + n)" by simp
    with True show ?thesis by simp
  next
    case False
    then have "decimal n = decimal (n div 10) @ [char_of (48 + n mod 10)]"
      by (subst decimal.simps) simp
    with "1.prems" have "c \<in> set (decimal (n div 10)) \<or> c = char_of (48 + n mod 10)"
      by auto
    then show ?thesis
    proof
      assume "c \<in> set (decimal (n div 10))"
      with False "1.IH" show ?thesis by simp
    next
      assume c: "c = char_of (48 + n mod 10)"
      have "n mod 10 < 10" by simp
      then have "(48 + n mod 10) mod 256 = 48 + n mod 10" by simp
      with c show ?thesis by simp
    qed
  qed
qed

lemma T_not_in_decimal: "CHR ''T'' \<notin> set (decimal n)"
  using decimal_digits [of "CHR ''T''" n] by auto

lemma T_not_in_pad: "CHR ''T'' \<notin> set (pad k n)"
  by (simp add: pad_def T_not_in_decimal)

lemma T_not_in_year_string: "CHR ''T'' \<notin> set (year_string t)"
  by (simp add: year_string_def T_not_in_pad)

lemma takeWhile_until: "c \<notin> set xs \<Longrightarrow> takeWhile (\<lambda>x. x \<noteq> c) (xs @ c # ys) = xs"
  by (induction xs) auto

lemma date_of_toISOString:
  "split_0 CHR ''T'' (toISOString t) =
     year_string t @ ''-'' @ pad 2 (month t) @ ''-'' @ pad 2 (day t)"
proof -
  let ?d = "year_string t @ ''-'' @ pad 2 (month t) @ ''-'' @ pad 2 (day t)"
  let ?r = "pad 2 (hours t) @ '':'' @ pad 2 (minutes t) @ '':'' @ pad 2 (seconds t)
     @ ''.'' @ pad 3 (milliseconds t) @ ''Z''"
  have n: "CHR ''T'' \<notin> set ?d"
    by (simp add: T_not_in_pad T_not_in_year_string)
  have "toISOString t = ?d @ CHR ''T'' # ?r"
    by (simp add: toISOString_def)
  then have "split_0 CHR ''T'' (toISOString t) = takeWhile (\<lambda>x. x \<noteq> CHR ''T'') (?d @ CHR ''T'' # ?r)"
    by (simp only: split_0_def)
  also have "\<dots> = ?d"
    by (rule takeWhile_until [OF n])
  finally show ?thesis .
qed

text \<open>
  The digits themselves: two for a number below 100, four for a year up to 9999, so that
  the date is written out character by character.
\<close>

lemma char_of_48: "char_of (48 :: nat) = CHR ''0''"
  by code_simp

lemma decimal_lt_10: "n < 10 \<Longrightarrow> decimal n = [char_of (48 + n)]"
  by (subst decimal.simps) simp

lemma decimal_ge_10: "\<not> n < 10 \<Longrightarrow> decimal n = decimal (n div 10) @ [char_of (48 + n mod 10)]"
  by (subst decimal.simps) simp

lemma pad_2: 
  assumes "n < 100"
  shows "pad 2 n = [char_of (48 + n div 10), char_of (48 + n mod 10)]"
proof (cases "n < 10")
  case True
  then show ?thesis by (simp add: pad_def decimal_lt_10 char_of_48)
next
  case False
  moreover from assms have "n div 10 < 10" by simp
  ultimately show ?thesis by (simp add: pad_def decimal_ge_10 decimal_lt_10)
qed

lemma decimal_2:
  assumes "\<not> n < 10" "n < 100"
  shows "decimal n = [char_of (48 + n div 10), char_of (48 + n mod 10)]"
proof -
  from assms have "n div 10 < 10" by simp
  with assms show ?thesis by (simp add: decimal_ge_10 decimal_lt_10)
qed

lemma decimal_3:
  assumes "\<not> n < 100" "n < 1000"
  shows "decimal n = [char_of (48 + n div 100), char_of (48 + n div 10 mod 10), char_of (48 + n mod 10)]"
proof -
  from assms have a: "\<not> n div 10 < 10" "n div 10 < 100" "\<not> n < 10" by simp_all
  have "n div 10 div 10 = n div 100" by (simp add: div_mult2_eq)
  with decimal_2 [OF a(1,2)] a(3) show ?thesis by (simp add: decimal_ge_10)
qed

lemma decimal_4:
  assumes "\<not> n < 1000" "n < 10000"
  shows "decimal n = [char_of (48 + n div 1000), char_of (48 + n div 100 mod 10),
                      char_of (48 + n div 10 mod 10), char_of (48 + n mod 10)]"
proof -
  from assms have a: "\<not> n div 10 < 100" "n div 10 < 1000" "\<not> n < 10" by simp_all
  have "n div 10 div 100 = n div 1000" "n div 10 div 10 = n div 100" by (simp_all add: div_mult2_eq)
  with decimal_3 [OF a(1,2)] a(3) show ?thesis by (simp add: decimal_ge_10)
qed

lemma rep2: "replicate 2 c = [c, c]"
  by (simp add: numeral_2_eq_2)

lemma rep3: "replicate 3 c = [c, c, c]"
  by (simp add: numeral_3_eq_3)

lemma pad_4:
  assumes "n < 10000"
  shows "pad 4 n = [char_of (48 + n div 1000), char_of (48 + n div 100 mod 10),
                    char_of (48 + n div 10 mod 10), char_of (48 + n mod 10)]"
proof -
  consider "n < 10" | "\<not> n < 10" "n < 100" | "\<not> n < 100" "n < 1000" | "\<not> n < 1000"
    by linarith
  then show ?thesis
  proof cases
    case 1
    then show ?thesis by (simp add: pad_def decimal_lt_10 char_of_48 rep2 rep3)
  next
    case 2
    then show ?thesis by (simp add: pad_def decimal_2 char_of_48 rep2 rep3)
  next
    case 3
    then show ?thesis by (simp add: pad_def decimal_3 char_of_48 rep2 rep3)
  next
    case 4
    with assms show ?thesis by (simp add: pad_def decimal_4)
  qed
qed

lemma sample_date:
  "[char_of (48 + year sample_now div 1000), char_of (48 + year sample_now div 100 mod 10),
    char_of (48 + year sample_now div 10 mod 10), char_of (48 + year sample_now mod 10), CHR ''-'',
    char_of (48 + month sample_now div 10), char_of (48 + month sample_now mod 10), CHR ''-'',
    char_of (48 + day sample_now div 10), char_of (48 + day sample_now mod 10)] = ''2024-03-09''"
  by code_simp

lemma date_digits:
  assumes "year t \<le> 9999" and "month t < 100" and "day t < 100"
  shows "split_0 CHR ''T'' (toISOString t) =
     [char_of (48 + year t div 1000), char_of (48 + year t div 100 mod 10),
      char_of (48 + year t div 10 mod 10), char_of (48 + year t mod 10), CHR ''-'',
      char_of (48 + month t div 10), char_of (48 + month t mod 10), CHR ''-'',
      char_of (48 + day t div 10), char_of (48 + day t mod 10)]"
proof -
  from assms(1) have "year t < 10000" by simp
  then have "year_string t = [char_of (48 + year t div 1000), char_of (48 + year t div 100 mod 10),
      char_of (48 + year t div 10 mod 10), char_of (48 + year t mod 10)]"
    using assms(1) by (simp add: year_string_def pad_4)
  then show ?thesis
    by (simp add: date_of_toISOString pad_2 [OF assms(2)] pad_2 [OF assms(3)])
qed

subsection \<open>The amount in cents\<close>

lemma Number_125_50: "Number (Some ''125.50'') = Fin (251 / 2)"
  by code_simp

lemma cents_125_50: "binary64 12550 = Fin 12550"
  by code_simp

lemma parse_125_50:
  "FormSchema_safeParse (Some C) (Some ''125.50'') (Some ''pending'') =
     Inr \<lparr>customerId = C, amount = Fin (251 / 2), status = pending\<rparr>"
  by (simp add: FormSchema_safeParse_def z_string_def z_coerce_number_gt_def z_enum_status_def
      Number_125_50)

text \<open>
  C9. Creating an invoice from the form with customer \<open>C\<close>, amount \<^verbatim>\<open>125.50\<close> and status
  \<^verbatim>\<open>pending\<close>, at an instant of a year up to 9999, hands exactly one statement to the
  store: the \<^verbatim>\<open>INSERT\<close> of the customer, the amount 12550 (the validated 125.5 times 100,
  in the action and not in the schema), the status \<^verbatim>\<open>pending\<close> and the date of the instant
  of the call: the four digits of its year, a hyphen, the two digits of its month, a
  hyphen, the two digits of its day. What the store makes of this statement is the store
  after the action.
\<close>

theorem create_125_50:
  assumes "year now \<le> 9999" and "month now < 100" and "day now < 100"
  shows "createInvoice exec now prev [(''customerId'', C), (''amount'', ''125.50''), (''status'', ''pending'')] w =
     (let q = InsertInvoice C (Fin 12550) pending
                [char_of (48 + year now div 1000), char_of (48 + year now div 100 mod 10),
                 char_of (48 + year now div 10 mod 10), char_of (48 + year now mod 10), CHR ''-'',
                 char_of (48 + month now div 10), char_of (48 + month now mod 10), CHR ''-'',
                 char_of (48 + day now div 10), char_of (48 + day now mod 10)]
      in case exec q (db w) of
           Inl err \<Rightarrow>
             (Return \<lparr>errors = None, message = Some ''Database Error: Failed to create invoice.''\<rparr>,
              emit (Sql q) w)
         | Inr d \<Rightarrow>
             (Throw (NEXT_REDIRECT ''/dashboard/invoices''),
              emit (Redirect ''/dashboard/invoices'')
                (emit (RevalidatePath ''/dashboard/invoices'') (emit (Sql q) (w\<lparr>db := d\<rparr>)))))"
proof -
  let ?fd = "[(''customerId'', C), (''amount'', ''125.50''), (''status'', ''pending'')]"
  let ?d = "\<lparr>customerId = C, amount = Fin (251 / 2), status = pending\<rparr>"
  let ?q = "InsertInvoice C (Fin 12550) pending
                [char_of (48 + year now div 1000), char_of (48 + year now div 100 mod 10),
                 char_of (48 + year now div 10 mod 10), char_of (48 + year now mod 10), CHR ''-'',
                 char_of (48 + month now div 10), char_of (48 + month now mod 10), CHR ''-'',
                 char_of (48 + day now div 10), char_of (48 + day now mod 10)]"
  have p: "CreateInvoice_safeParse (formData_get ?fd ''customerId'')
             (formData_get ?fd ''amount'') (formData_get ?fd ''status'') = Inr ?d"
    by (simp add: CreateInvoice_safeParse_def formData_get_def parse_125_50)
  have q: "insert_statement now ?d = ?q"
    by (simp add: insert_statement_def cents_125_50 date_digits [OF assms])
  show ?thesis
  proof (cases "exec ?q (db w)")
    case (Inl err)
    then show ?thesis
      using persist_fails [of exec ?q w err] by (simp add: createInvoice_valid [OF p] q)
  next
    case (Inr d)
    then show ?thesis
      using persist_succeeds [of exec ?q w d] by (simp add: createInvoice_valid [OF p] q)
  qed
qed

lemma sample_iso: "toISOString sample_now = ''2024-03-09T07:05:01.042Z''"
  by code_simp

text \<open>
  At 2024-03-09T07:05:01.042Z, on the store that keeps its statements: the row is dated
  \<^verbatim>\<open>2024-03-09\<close>.
\<close>

theorem create_125_50_witness:
  "toISOString sample_now = ''2024-03-09T07:05:01.042Z''
   \<and> createInvoice logging_store sample_now no_state
       [(''customerId'', ''c-42''), (''amount'', ''125.50''), (''status'', ''pending'')] sample_world =
     (Throw (NEXT_REDIRECT ''/dashboard/invoices''),
      \<lparr>db = [InsertInvoice ''c-42'' (Fin 12550) pending ''2024-03-09''],
       trace = [Sql (InsertInvoice ''c-42'' (Fin 12550) pending ''2024-03-09''),
                RevalidatePath ''/dashboard/invoices'', Redirect ''/dashboard/invoices'']\<rparr>)"
proof -
  have y: "year sample_now \<le> 9999" and m: "month sample_now < 100" and d: "day sample_now < 100"
    by (simp_all add: sample_now_def)
  have "createInvoice logging_store sample_now no_state
       [(''customerId'', ''c-42''), (''amount'', ''125.50''), (''status'', ''pending'')] sample_world =
     (Throw (NEXT_REDIRECT ''/dashboard/invoices''),
      \<lparr>db = [InsertInvoice ''c-42'' (Fin 12550) pending ''2024-03-09''],
       trace = [Sql (InsertInvoice ''c-42'' (Fin 12550) pending ''2024-03-09''),
                RevalidatePath ''/dashboard/invoices'', Redirect ''/dashboard/invoices'']\<rparr>)"
    using create_125_50 [OF y m d, where exec = logging_store and prev = no_state
        and C = "''c-42''" and w = sample_world]
    by (simp only: sample_date) (simp add: logging_store_def sample_world_def emit_def Let_def)
  with sample_iso show ?thesis by blast
qed

subsection \<open>Failure of the store, and the order of the effects\<close>

lemma sample_form_parses:
  "FormSchema_safeParse (formData_get sample_form ''customerId'')
     (formData_get sample_form ''amount'') (formData_get sample_form ''status'') = Inr sample_fields"
  by (simp add: sample_form_def sample_fields_def formData_get_def parse_125_50)

text \<open>
  C2. On input that passes the schema, \<^verbatim>\<open>createInvoice\<close> and \<^verbatim>\<open>updateInvoice\<close> return a
  state whose message is the database error when the store refuses the statement: nothing
  is thrown. When the store accepts it, they complete by throwing the navigation signal
  to \<^verbatim>\<open>/dashboard/invoices\<close>: the signal is raised after the \<^verbatim>\<open>try\<close> block and leaves the
  action.
\<close>

theorem store_failure_returned_redirect_thrown:
  assumes "FormSchema_safeParse (formData_get fd ''customerId'')
             (formData_get fd ''amount'') (formData_get fd ''status'') = Inr d"
  shows "(\<forall>err. exec (insert_statement now d) (db w) = Inl err \<longrightarrow>
            fst (createInvoice exec now prev fd w) =
              Return \<lparr>errors = None, message = Some ''Database Error: Failed to create invoice.''\<rparr>)
       \<and> (\<forall>d'. exec (insert_statement now d) (db w) = Inr d' \<longrightarrow>
            fst (createInvoice exec now prev fd w) = Throw (NEXT_REDIRECT ''/dashboard/invoices''))
       \<and> (\<forall>err. exec (update_statement i d) (db w) = Inl err \<longrightarrow>
            fst (updateInvoice exec i prev fd w) =
              Return \<lparr>errors = None, message = Some ''Database Error: Failed to Update Invoice.''\<rparr>)
       \<and> (\<forall>d'. exec (update_statement i d) (db w) = Inr d' \<longrightarrow>
            fst (updateInvoice exec i prev fd w) = Throw (NEXT_REDIRECT ''/dashboard/invoices''))"
proof -
  have c: "CreateInvoice_safeParse (formData_get fd ''customerId'')
             (formData_get fd ''amount'') (formData_get fd ''status'') = Inr d"
    using assms by (simp add: CreateInvoice_safeParse_def)
  have u: "UpdateInvoice_safeParse (formData_get fd ''customerId'')
             (formData_get fd ''amount'') (formData_get fd ''status'') = Inr d"
    using assms by (simp add: UpdateInvoice_safeParse_def)
  show ?thesis
    by (simp add: createInvoice_valid [OF c] updateInvoice_valid [OF u] persist_fails persist_succeeds)
qed

text \<open>The sample form, on the store that refuses and on the store that accepts.\<close>

theorem store_failure_returned_redirect_thrown_witness:
  "fst (createInvoice failing_store sample_now no_state sample_form sample_world) =
     Return \<lparr>errors = None, message = Some ''Database Error: Failed to create invoice.''\<rparr>
   \<and> fst (createInvoice logging_store sample_now no_state sample_form sample_world) =
       Throw (NEXT_REDIRECT ''/dashboard/invoices'')
   \<and> fst (updateInvoice failing_store ''7'' no_state sample_form sample_world) =
       Return \<lparr>errors = None, message = Some ''Database Error: Failed to Update Invoice.''\<rparr>
   \<and> fst (updateInvoice logging_store ''7'' no_state sample_form sample_world) =
       Throw (NEXT_REDIRECT ''/dashboard/invoices'')"
  using store_failure_returned_redirect_thrown [OF sample_form_parses,
          where exec = failing_store and w = sample_world and now = sample_now
            and prev = no_state and i = "''7''"]
        store_failure_returned_redirect_thrown [OF sample_form_parses,
          where exec = logging_store and w = sample_world and now = sample_now
            and prev = no_state and i = "''7''"]
  by (simp add: failing_store_def logging_store_def)

text \<open>
  C3. On input that passes the schema, when the store accepts the statement the action
  adds to the trace the statement, then the invalidation of \<^verbatim>\<open>/dashboard/invoices\<close>,
  then the redirect to it, in this order; when the store refuses the statement, the
  statement is all it adds: no invalidation and no redirect.
\<close>

theorem invalidation_precedes_redirect:
  assumes "FormSchema_safeParse (formData_get fd ''customerId'')
             (formData_get fd ''amount'') (formData_get fd ''status'') = Inr d"
  shows "(\<forall>d'. exec (insert_statement now d) (db w) = Inr d' \<longrightarrow>
            trace (snd (createInvoice exec now prev fd w)) =
              trace w @ [Sql (insert_statement now d), RevalidatePath ''/dashboard/invoices'',
                         Redirect ''/dashboard/invoices''])
       \<and> (\<forall>err. exec (insert_statement now d) (db w) = Inl err \<longrightarrow>
            trace (snd (createInvoice exec now prev fd w)) = trace w @ [Sql (insert_statement now d)])
       \<and> (\<forall>d'. exec (update_statement i d) (db w) = Inr d' \<longrightarrow>
            trace (snd (updateInvoice exec i prev fd w)) =
              trace w @ [Sql (update_statement i d), RevalidatePath ''/dashboard/invoices'',
                         Redirect ''/dashboard/invoices''])
       \<and> (\<forall>err. exec (update_statement i d) (db w) = Inl err \<longrightarrow>
            trace (snd (updateInvoice exec i prev fd w)) = trace w @ [Sql (update_statement i d)])"
proof -
  have c: "CreateInvoice_safeParse (formData_get fd ''customerId'')
             (formData_get fd ''amount'') (formData_get fd ''status'') = Inr d"
    using assms by (simp add: CreateInvoice_safeParse_def)
  have u: "UpdateInvoice_safeParse (formData_get fd ''customerId'')
             (formData_get fd ''amount'') (formData_get fd ''status'') = Inr d"
    using assms by (simp add: UpdateInvoice_safeParse_def)
  show ?thesis
    by (simp add: createInvoice_valid [OF c] updateInvoice_valid [OF u] persist_fails
        persist_succeeds emit_def)
qed

text \<open>The traces of the sample form on the two sample stores.\<close>

theorem invalidation_precedes_redirect_witness:
  "trace (snd (createInvoice logging_store sample_now no_state sample_form sample_world)) =
     [Sql (insert_statement sample_now sample_fields), RevalidatePath ''/dashboard/invoices'',
      Redirect ''/dashboard/invoices'']
   \<and> trace (snd (createInvoice failing_store sample_now no_state sample_form sample_world)) =
       [Sql (insert_statement sample_now sample_fields)]
   \<and> trace (snd (updateInvoice logging_store ''7'' no_state sample_form sample_world)) =
       [Sql (update_statement ''7'' sample_fields), RevalidatePath ''/dashboard/invoices'',
        Redirect ''/dashboard/invoices'']
   \<and> trace (snd (updateInvoice failing_store ''7'' no_state sample_form sample_world)) =
       [Sql (update_statement ''7'' sample_fields)]"
proof -
  have t: "trace sample_world = []"
    by (simp add: sample_world_def)
  show ?thesis
    using invalidation_precedes_redirect [OF sample_form_parses,
            where exec = failing_store and w = sample_world and now = sample_now
              and prev = no_state and i = "''7''"]
          invalidation_precedes_redirect [OF sample_form_parses,
            where exec = logging_store and w = sample_world and now = sample_now
              and prev = no_state and i = "''7''"]
    by (simp add: failing_store_def logging_store_def t)
qed

text \<open>
  Had the redirect stood inside the \<^verbatim>\<open>try\<close> block, the handler would have caught the
  signal: it never leaves such a block.
\<close>

lemma try_catch_swallows_redirect:
  "try_catch (seq body (redirect p)) (\<lambda>error. return_stmt r) w \<noteq> (Throw (NEXT_REDIRECT p), w')"
  by (auto simp add: try_catch_def seq_def redirect_def return_stmt_def
      split: prod.splits completion.splits)

subsection \<open>Amounts the schema rejects\<close>

lemma foldl_add_issue:
  "foldl add_issue m issues k =
     (let new = map snd (filter (\<lambda>i. fst i = k) issues)
      in if new = [] then m k else Some ((case m k of None \<Rightarrow> [] | Some ms \<Rightarrow> ms) @ new))"
proof (induction issues arbitrary: m)
  case Nil
  then show ?case by simp
next
  case (Cons i issues)
  obtain p msg where i: "i = (p, msg)" by (cases i)
  have "foldl add_issue m (i # issues) k = foldl add_issue (add_issue m i) issues k"
    by simp
  also have "\<dots> = (let new = map snd (filter (\<lambda>i. fst i = k) issues)
      in if new = [] then add_issue m i k
         else Some ((case add_issue m i k of None \<Rightarrow> [] | Some ms \<Rightarrow> ms) @ new))"
    by (rule Cons.IH)
  also have "\<dots> = (let new = map snd (filter (\<lambda>i. fst i = k) (i # issues))
      in if new = [] then m k else Some ((case m k of None \<Rightarrow> [] | Some ms \<Rightarrow> ms) @ new))"
    by (cases "m k") (simp_all add: i add_issue_def Let_def)
  finally show ?case .
qed

lemma fieldErrors_key:
  "fieldErrors issues k =
     (let new = map snd (filter (\<lambda>i. fst i = k) issues) in if new = [] then None else Some new)"
  unfolding fieldErrors_def by (simp add: foldl_add_issue Let_def)

lemma issues_of_z_string:
  "map snd (filter (\<lambda>i. fst i = ''amount'') (issues_of (z_string ''customerId'' e c))) = []"
  by (cases c) (simp_all add: z_string_def issues_of_def)

lemma issues_of_z_enum_status:
  "map snd (filter (\<lambda>i. fst i = ''amount'') (issues_of (z_enum_status ''status'' e s))) = []"
  by (cases s) (simp_all add: z_enum_status_def issues_of_def)

lemma issues_of_Inl: "issues_of (Inl is) = is"
  by (simp add: issues_of_def)

lemma amount_not_positive_rejected:
  assumes "\<not> js_gt (Number a) 0"
  shows "\<exists>issues. FormSchema_safeParse c a s = Inl issues
           \<and> fieldErrors issues ''amount'' =
               Some [if Number a = NaN then ''Expected number, received nan''
                     else ''Please enter an amount greater than $0.'']"
proof -
  let ?pc = "z_string ''customerId'' ''Please select a customer.'' c"
  let ?pa = "z_coerce_number_gt ''amount'' 0 ''Please enter an amount greater than $0.'' a"
  let ?ps = "z_enum_status ''status'' ''Please select an invoice status'' s"
  let ?msg = "if Number a = NaN then ''Expected number, received nan''
              else ''Please enter an amount greater than $0.''"
  have pa: "?pa = Inl [(''amount'', ?msg)]"
    using assms by (simp add: z_coerce_number_gt_def Let_def)
  have "FormSchema_safeParse c a s = Inl (issues_of ?pc @ issues_of ?pa @ issues_of ?ps)"
    unfolding FormSchema_safeParse_def Let_def pa by (simp split: sum.splits)
  moreover have "fieldErrors (issues_of ?pc @ issues_of ?pa @ issues_of ?ps) ''amount'' = Some [?msg]"
    unfolding pa fieldErrors_key
    by (simp add: issues_of_z_string issues_of_z_enum_status Let_def issues_of_Inl)
  ultimately show ?thesis by blast
qed

lemma blank_is_zero: "trim s = [] \<Longrightarrow> StringToNumber s = Fin 0"
  by (simp add: StringToNumber_def)

text \<open>
  C4, as the code has it. An amount that is absent or blank (empty, or white space only)
  is coerced to 0 and fails the bound \<^verbatim>\<open>gt(0)\<close>; an amount that is not numeric is coerced
  to NaN and fails the type check of the number, before the bound is looked at. In both
  cases the parse fails with one message under the key \<^verbatim>\<open>amount\<close>, and \<^verbatim>\<open>createInvoice\<close>
  and \<^verbatim>\<open>updateInvoice\<close> return at once with the field errors: the world is as it was,
  no statement reached the store.
\<close>

theorem blank_or_non_numeric_amount_rejected:
  assumes "formData_get fd ''amount'' = a"
    and "a = None \<or> (\<exists>s. a = Some s \<and> (trim s = [] \<or> StringToNumber s = NaN))"
  shows "(if a = None \<or> (\<exists>s. a = Some s \<and> trim s = []) then Number a = Fin 0 else Number a = NaN)
       \<and> (\<exists>issues.
             fieldErrors issues ''amount'' =
               Some [if Number a = NaN then ''Expected number, received nan''
                     else ''Please enter an amount greater than $0.'']
           \<and> createInvoice exec now prev fd w =
               (Return \<lparr>errors = Some (fieldErrors issues),
                        message = Some ''Missing Fields. Failed to Create Invoice.''\<rparr>, w)
           \<and> updateInvoice exec i prev fd w =
               (Return \<lparr>errors = Some (fieldErrors issues),
                        message = Some ''Missing Fields. Failed to Update Invoice.''\<rparr>, w))"
proof -
  have n: "if a = None \<or> (\<exists>s. a = Some s \<and> trim s = []) then Number a = Fin 0 else Number a = NaN"
    using assms(2) by (auto simp add: Number_def blank_is_zero)
  then have "\<not> js_gt (Number a) 0"
    by (auto split: if_splits)
  from amount_not_positive_rejected [OF this]
  obtain issues where
    p: "FormSchema_safeParse (formData_get fd ''customerId'') a (formData_get fd ''status'') = Inl issues"
    and e: "fieldErrors issues ''amount'' =
               Some [if Number a = NaN then ''Expected number, received nan''
                     else ''Please enter an amount greater than $0.'']"
    by blast
  have c: "CreateInvoice_safeParse (formData_get fd ''customerId'')
             (formData_get fd ''amount'') (formData_get fd ''status'') = Inl issues"
    using p assms(1) by (simp add: CreateInvoice_safeParse_def)
  have u: "UpdateInvoice_safeParse (formData_get fd ''customerId'')
             (formData_get fd ''amount'') (formData_get fd ''status'') = Inl issues"
    using p assms(1) by (simp add: UpdateInvoice_safeParse_def)
  show ?thesis
    using n e createInvoice_invalid [OF c] updateInvoice_invalid [OF u] by blast
qed

lemma Number_abc: "StringToNumber ''abc'' = NaN"
  by code_simp

text \<open>The form with the empty amount and the form with the amount \<^verbatim>\<open>abc\<close>.\<close>

theorem blank_or_non_numeric_amount_rejected_witness:
  "Number (Some '''') = Fin 0
   \<and> (\<exists>issues.
         fieldErrors issues ''amount'' = Some [''Please enter an amount greater than $0.'']
       \<and> createInvoice logging_store sample_now no_state blank_amount_form sample_world =
           (Return \<lparr>errors = Some (fieldErrors issues),
                    message = Some ''Missing Fields. Failed to Create Invoice.''\<rparr>, sample_world)
       \<and> updateInvoice logging_store ''7'' no_state blank_amount_form sample_world =
           (Return \<lparr>errors = Some (fieldErrors issues),
                    message = Some ''Missing Fields. Failed to Update Invoice.''\<rparr>, sample_world))
   \<and> Number (Some ''abc'') = NaN
   \<and> (\<exists>issues.
         fieldErrors issues ''amount'' = Some [''Expected number, received nan'']
       \<and> createInvoice logging_store sample_now no_state abc_amount_form sample_world =
           (Return \<lparr>errors = Some (fieldErrors issues),
                    message = Some ''Missing Fields. Failed to Create Invoice.''\<rparr>, sample_world)
       \<and> updateInvoice logging_store ''7'' no_state abc_amount_form sample_world =
           (Return \<lparr>errors = Some (fieldErrors issues),
                    message = Some ''Missing Fields. Failed to Update Invoice.''\<rparr>, sample_world))"
proof -
  have b: "formData_get blank_amount_form ''amount'' = Some ''''"
    by (simp add: blank_amount_form_def formData_get_def)
  have b': "Some '''' = None \<or> (\<exists>s. Some '''' = Some s \<and> (trim s = [] \<or> StringToNumber s = NaN))"
    by (simp add: trim_def)
  have a: "formData_get abc_amount_form ''amount'' = Some ''abc''"
    by (simp add: abc_amount_form_def formData_get_def)
  have a': "Some ''abc'' = None \<or> (\<exists>s. Some ''abc'' = Some s \<and> (trim s = [] \<or> StringToNumber s = NaN))"
    by (simp add: Number_abc)
  have t: "trim ''abc'' \<noteq> []"
    by (simp add: trim_def StrWhiteSpaceChar_def)
  have z: "Number (Some '''') = Fin 0"
    by (simp add: Number_def blank_is_zero trim_def)
  have n: "Number (Some ''abc'') = NaN"
    by (simp add: Number_def Number_abc)
  have 1: "Number (Some '''') = Fin 0
   \<and> (\<exists>issues.
         fieldErrors issues ''amount'' = Some [''Please enter an amount greater than $0.'']
       \<and> createInvoice logging_store sample_now no_state blank_amount_form sample_world =
           (Return \<lparr>errors = Some (fieldErrors issues),
                    message = Some ''Missing Fields. Failed to Create Invoice.''\<rparr>, sample_world)
       \<and> updateInvoice logging_store ''7'' no_state blank_amount_form sample_world =
           (Return \<lparr>errors = Some (fieldErrors issues),
                    message = Some ''Missing Fields. Failed to Update Invoice.''\<rparr>, sample_world))"
    using blank_or_non_numeric_amount_rejected [OF b b',
            where exec = logging_store and now = sample_now and prev = no_state
              and w = sample_world and i = "''7''"]
    by (simp add: z)
  have 2: "Number (Some ''abc'') = NaN
   \<and> (\<exists>issues.
         fieldErrors issues ''amount'' = Some [''Expected number, received nan'']
       \<and> createInvoice logging_store sample_now no_state abc_amount_form sample_world =
           (Return \<lparr>errors = Some (fieldErrors issues),
                    message = Some ''Missing Fields. Failed to Create Invoice.''\<rparr>, sample_world)
       \<and> updateInvoice logging_store ''7'' no_state abc_amount_form sample_world =
           (Return \<lparr>errors = Some (fieldErrors issues),
                    message = Some ''Missing Fields. Failed to Update Invoice.''\<rparr>, sample_world))"
    using blank_or_non_numeric_amount_rejected [OF a a',
            where exec = logging_store and now = sample_now and prev = no_state
              and w = sample_world and i = "''7''"]
    by (simp add: n)
  from 1 2 show ?thesis by blast
qed

text \<open>
  C4 as it is written does not hold: the amount \<^verbatim>\<open>abc\<close> is coerced to NaN, not to 0, and
  the message it gets is the one of the type check, not the one of the bound.
\<close>

theorem non_numeric_amount_is_not_zero:
  "Number (formData_get abc_amount_form ''amount'') = NaN
   \<and> Number (formData_get abc_amount_form ''amount'') \<noteq> Fin 0
   \<and> FormSchema_safeParse (formData_get abc_amount_form ''customerId'')
        (formData_get abc_amount_form ''amount'') (formData_get abc_amount_form ''status'') =
       Inl [(''amount'', ''Expected number, received nan'')]"
  by (simp add: abc_amount_form_def formData_get_def Number_def Number_abc
      FormSchema_safeParse_def z_string_def z_coerce_number_gt_def z_enum_status_def issues_of_def)

section \<open>Properties of the credential verification\<close>

text \<open>What \<^verbatim>\<open>getUser\<close> gives, and the two ways through \<^verbatim>\<open>authorize\<close>.\<close>

lemma getUser_fails:
  assumes "select e (db w) = Inl err"
  shows "call None (getUser select e) w =
           (Inl (Error ''Failed to fetch user.''),
            emit (ConsoleError ''Failed to fetch user:'') (emit (SelectUser e) w))"
  using assms
  by (simp add: call_def getUser_def try_catch_def await_def sql_users_def seq_def
      console_error_def throw_stmt_def)

lemma getUser_rows:
  assumes "select e (db w) = Inr rows"
  shows "call None (getUser select e) w = (Inr (rows_0 rows), emit (SelectUser e) w)"
  using assms
  by (simp add: call_def getUser_def try_catch_def await_def sql_users_def return_stmt_def)

lemma authorize_well_formed:
  assumes "credentials_safeParse isEmail c = Inr (e, p)"
  shows "authorize isEmail compare select c =
           seq (await (call None (getUser select e)) (\<lambda>user.
                  case user of
                    None \<Rightarrow> return_stmt None
                  | Some u \<Rightarrow> if compare p (user_password u) then return_stmt (Some u) else skip))
             (seq (console_log ''Invalid Credentials'') (return_stmt None))"
  using assms by (simp add: authorize_def Let_def)

lemma authorize_malformed:
  assumes "credentials_safeParse isEmail c = Inl issues"
  shows "authorize isEmail compare select c w =
           (Return None, emit (ConsoleLog ''Invalid Credentials'') w)"
  using assms
  by (simp add: authorize_def Let_def seq_def skip_def console_log_def return_stmt_def)

lemma credentials_safeParse_Inr:
  "credentials_safeParse isEmail c = Inr (e, p) \<longleftrightarrow>
     email c = Some e \<and> isEmail e \<and> password c = Some p \<and> 6 \<le> length p"
  by (auto simp add: credentials_safeParse_def z_string_email_def z_string_min_def Let_def
      split: option.splits if_splits sum.splits)

lemma credentials_safeParse_cases:
  "(\<exists>e p. credentials_safeParse isEmail c = Inr (e, p)) \<or> (\<exists>issues. credentials_safeParse isEmail c = Inl issues)"
  by (cases "credentials_safeParse isEmail c") auto

text \<open>
  C5. For credentials that pass the schema (the email is well formed, the password has
  at least 6 characters): when the lookup in the store fails, \<^verbatim>\<open>authorize\<close> throws the
  error \<^verbatim>\<open>Failed to fetch user.\<close>, which is not the rejection \<^verbatim>\<open>null\<close>; when the lookup
  succeeds and gives no row, \<^verbatim>\<open>authorize\<close> returns \<^verbatim>\<open>null\<close> and throws nothing.
\<close>

theorem lookup_failure_is_not_rejection:
  assumes "email c = Some e" and "isEmail e" and "password c = Some p" and "6 \<le> length p"
  shows "(\<forall>err. select e (db w) = Inl err \<longrightarrow>
            fst (authorize isEmail compare select c w) = Throw (Error ''Failed to fetch user.''))
       \<and> (select e (db w) = Inr [] \<longrightarrow>
            fst (authorize isEmail compare select c w) = Return None)"
proof -
  have p: "credentials_safeParse isEmail c = Inr (e, p)"
    using assms by (simp add: credentials_safeParse_Inr)
  show ?thesis
    by (simp add: authorize_well_formed [OF p] seq_def await_def getUser_fails getUser_rows
        rows_0_def return_stmt_def)
qed

text \<open>
  The registered user on a store that is down, and an email nobody registered on the
  store that answers.
\<close>

theorem lookup_failure_is_not_rejection_witness:
  "fst (authorize sample_isEmail sample_compare unavailable_select
          \<lparr>email = Some ''user@nextmail.com'', password = Some ''123456''\<rparr> users_world) =
     Throw (Error ''Failed to fetch user.'')
   \<and> fst (authorize sample_isEmail sample_compare sample_select
          \<lparr>email = Some ''nobody@nextmail.com'', password = Some ''123456''\<rparr> users_world) =
     Return None"
proof -
  have 1: "fst (authorize sample_isEmail sample_compare unavailable_select
          \<lparr>email = Some ''user@nextmail.com'', password = Some ''123456''\<rparr> users_world) =
     Throw (Error ''Failed to fetch user.'')"
    using lookup_failure_is_not_rejection [where isEmail = sample_isEmail
        and c = "\<lparr>email = Some ''user@nextmail.com'', password = Some ''123456''\<rparr>"
        and e = "''user@nextmail.com''" and p = "''123456''" and select = unavailable_select
        and w = users_world and compare = sample_compare]
    by (simp add: sample_isEmail_def unavailable_select_def)
  have 2: "fst (authorize sample_isEmail sample_compare sample_select
          \<lparr>email = Some ''nobody@nextmail.com'', password = Some ''123456''\<rparr> users_world) =
     Return None"
    using lookup_failure_is_not_rejection [where isEmail = sample_isEmail
        and c = "\<lparr>email = Some ''nobody@nextmail.com'', password = Some ''123456''\<rparr>"
        and e = "''nobody@nextmail.com''" and p = "''123456''" and select = sample_select
        and w = users_world and compare = sample_compare]
    by (simp add: sample_isEmail_def sample_select_def users_world_def sample_user_def
        short_password_user_def)
  from 1 2 show ?thesis by blast
qed

text \<open>
  C6, as the code has it. For an email whose lookup gives a row: when the credentials
  pass the schema (the email is well formed, the password has at least 6 characters) and
  the password fits the hash of the first row, \<^verbatim>\<open>authorize\<close> returns that row; when the
  password does not fit the hash, \<^verbatim>\<open>authorize\<close> returns \<^verbatim>\<open>null\<close>, whether the credentials
  pass the schema or not.
\<close>

theorem registered_user_is_verified:
  assumes "email c = Some e" and "password c = Some p" and "select e (db w) = Inr (u # us)"
  shows "(isEmail e \<and> 6 \<le> length p \<and> compare p (user_password u) \<longrightarrow>
            fst (authorize isEmail compare select c w) = Return (Some u))
       \<and> (\<not> compare p (user_password u) \<longrightarrow>
            fst (authorize isEmail compare select c w) = Return None)"
proof (cases "isEmail e \<and> 6 \<le> length p")
  case True
  then have p: "credentials_safeParse isEmail c = Inr (e, p)"
    using assms(1,2) by (simp add: credentials_safeParse_Inr)
  show ?thesis
    using assms(3) True
    by (simp add: authorize_well_formed [OF p] seq_def await_def getUser_rows
        rows_0_def return_stmt_def skip_def console_log_def)
next
  case False
  then have "\<not> (\<exists>e' p'. credentials_safeParse isEmail c = Inr (e', p'))"
    using assms(1,2) by (auto simp add: credentials_safeParse_Inr)
  with credentials_safeParse_cases [of isEmail c]
  obtain issues where "credentials_safeParse isEmail c = Inl issues" by blast
  then have "fst (authorize isEmail compare select c w) = Return None"
    by (simp add: authorize_malformed)
  with False show ?thesis by blast
qed

text \<open>
  The registered sample user with the right password, with a wrong one, and with a wrong
  one that is also too short.
\<close>

theorem registered_user_is_verified_witness:
  "fst (authorize sample_isEmail sample_compare sample_select
          \<lparr>email = Some ''user@nextmail.com'', password = Some ''123456''\<rparr> users_world) =
     Return (Some sample_user)
   \<and> fst (authorize sample_isEmail sample_compare sample_select
          \<lparr>email = Some ''user@nextmail.com'', password = Some ''1234567''\<rparr> users_world) =
     Return None
   \<and> fst (authorize sample_isEmail sample_compare sample_select
          \<lparr>email = Some ''user@nextmail.com'', password = Some ''1234''\<rparr> users_world) =
     Return None"
proof -
  have s: "sample_select ''user@nextmail.com'' (db users_world) = Inr [sample_user]"
    by (simp add: sample_select_def users_world_def sample_user_def short_password_user_def)
  have 1: "fst (authorize sample_isEmail sample_compare sample_select
          \<lparr>email = Some ''user@nextmail.com'', password = Some ''123456''\<rparr> users_world) =
     Return (Some sample_user)"
    using registered_user_is_verified [where isEmail = sample_isEmail
        and c = "\<lparr>email = Some ''user@nextmail.com'', password = Some ''123456''\<rparr>"
        and e = "''user@nextmail.com''" and p = "''123456''" and select = sample_select
        and w = users_world and compare = sample_compare and u = sample_user and us = "[]"]
    by (simp add: s sample_isEmail_def sample_compare_def sample_user_def)
  have 2: "fst (authorize sample_isEmail sample_compare sample_select
          \<lparr>email = Some ''user@nextmail.com'', password = Some ''1234567''\<rparr> users_world) =
     Return None"
    using registered_user_is_verified [where isEmail = sample_isEmail
        and c = "\<lparr>email = Some ''user@nextmail.com'', password = Some ''1234567''\<rparr>"
        and e = "''user@nextmail.com''" and p = "''1234567''" and select = sample_select
        and w = users_world and compare = sample_compare and u = sample_user and us = "[]"]
    by (simp add: s sample_isEmail_def sample_compare_def sample_user_def)
  have 3: "fst (authorize sample_isEmail sample_compare sample_select
          \<lparr>email = Some ''user@nextmail.com'', password = Some ''1234''\<rparr> users_world) =
     Return None"
    using registered_user_is_verified [where isEmail = sample_isEmail
        and c = "\<lparr>email = Some ''user@nextmail.com'', password = Some ''1234''\<rparr>"
        and e = "''user@nextmail.com''" and p = "''1234''" and select = sample_select
        and w = users_world and compare = sample_compare and u = sample_user and us = "[]"]
    by (simp add: s sample_isEmail_def sample_compare_def sample_user_def)
  from 1 2 3 show ?thesis by blast
qed

text \<open>
  C6 as it is written does not hold: a registered user whose right password has five
  characters is rejected, since the schema refuses the password before the store is
  asked.
\<close>

theorem short_correct_password_is_rejected:
  "sample_select ''short@nextmail.com'' (db users_world) = Inr [short_password_user]
   \<and> sample_compare ''12345'' (user_password short_password_user)
   \<and> fst (authorize sample_isEmail sample_compare sample_select
          \<lparr>email = Some ''short@nextmail.com'', password = Some ''12345''\<rparr> users_world) =
       Return None"
proof -
  have "\<not> (\<exists>e p. credentials_safeParse sample_isEmail
          \<lparr>email = Some ''short@nextmail.com'', password = Some ''12345''\<rparr> = Inr (e, p))"
    by (simp add: credentials_safeParse_Inr)
  with credentials_safeParse_cases
  obtain issues where "credentials_safeParse sample_isEmail
          \<lparr>email = Some ''short@nextmail.com'', password = Some ''12345''\<rparr> = Inl issues"
    by blast
  then have "fst (authorize sample_isEmail sample_compare sample_select
          \<lparr>email = Some ''short@nextmail.com'', password = Some ''12345''\<rparr> users_world) =
       Return None"
    by (simp add: authorize_malformed)
  moreover have "sample_select ''short@nextmail.com'' (db users_world) = Inr [short_password_user]"
    by (simp add: sample_select_def users_world_def sample_user_def short_password_user_def)
  moreover have "sample_compare ''12345'' (user_password short_password_user)"
    by (simp add: sample_compare_def short_password_user_def)
  ultimately show ?thesis by blast
qed

text \<open>
  C7. When the email is absent or not well formed, or the password is absent or shorter
  than 6 characters, \<^verbatim>\<open>authorize\<close> returns \<^verbatim>\<open>null\<close> and the only effect is the line it
  logs: no lookup was added to the trace, and the answer does not depend on the store.
\<close>

theorem malformed_credentials_rejected_without_lookup:
  assumes "\<not> (\<exists>e. email c = Some e \<and> isEmail e) \<or> \<not> (\<exists>p. password c = Some p \<and> 6 \<le> length p)"
  shows "authorize isEmail compare select c w =
           (Return None, emit (ConsoleLog ''Invalid Credentials'') w)"
proof -
  have "\<not> (\<exists>e p. credentials_safeParse isEmail c = Inr (e, p))"
    using assms by (auto simp add: credentials_safeParse_Inr)
  with credentials_safeParse_cases [of isEmail c]
  obtain issues where "credentials_safeParse isEmail c = Inl issues" by blast
  then show ?thesis by (rule authorize_malformed)
qed

text \<open>
  An email the test refuses, and a password of five characters.
\<close>

theorem malformed_credentials_rejected_without_lookup_witness:
  "authorize sample_isEmail sample_compare sample_select
     \<lparr>email = Some ''not an email'', password = Some ''123456''\<rparr> users_world =
     (Return None, emit (ConsoleLog ''Invalid Credentials'') users_world)
   \<and> authorize sample_isEmail sample_compare sample_select
     \<lparr>email = Some ''user@nextmail.com'', password = Some ''12345''\<rparr> users_world =
     (Return None, emit (ConsoleLog ''Invalid Credentials'') users_world)
   \<and> trace (emit (ConsoleLog ''Invalid Credentials'') users_world) = [ConsoleLog ''Invalid Credentials'']"
proof -
  have 1: "authorize sample_isEmail sample_compare sample_select
     \<lparr>email = Some ''not an email'', password = Some ''123456''\<rparr> users_world =
     (Return None, emit (ConsoleLog ''Invalid Credentials'') users_world)"
    using malformed_credentials_rejected_without_lookup [where isEmail = sample_isEmail
        and c = "\<lparr>email = Some ''not an email'', password = Some ''123456''\<rparr>"
        and select = sample_select and w = users_world and compare = sample_compare]
    by (simp add: sample_isEmail_def)
  have 2: "authorize sample_isEmail sample_compare sample_select
     \<lparr>email = Some ''user@nextmail.com'', password = Some ''12345''\<rparr> users_world =
     (Return None, emit (ConsoleLog ''Invalid Credentials'') users_world)"
    using malformed_credentials_rejected_without_lookup [where isEmail = sample_isEmail
        and c = "\<lparr>email = Some ''user@nextmail.com'', password = Some ''12345''\<rparr>"
        and select = sample_select and w = users_world and compare = sample_compare]
    by simp
  have 3: "trace (emit (ConsoleLog ''Invalid Credentials'') users_world) = [ConsoleLog ''Invalid Credentials'']"
    by (simp add: emit_def users_world_def)
  from 1 2 3 show ?thesis by blast
qed

section \<open>Properties of the matcher\<close>

text \<open>
  What \<^verbatim>\<open>.*\<close> can leave, and from it the paths the matcher accepts: those that start
  with a slash, hold no line terminator, and after the slash neither start with one of
  the three literals nor end in \<^verbatim>\<open>.png\<close>.
\<close>

lemma dot_star_iff:
  "r \<in> set (dot_star s) \<longleftrightarrow> (\<exists>u. s = u @ r \<and> (\<forall>c\<in>set u. \<not> LineTerminator c))"
proof (induction s)
  case Nil
  then show ?case by simp
next
  case (Cons x xs)
  show ?case
  proof
    assume "r \<in> set (dot_star (x # xs))"
    then consider "r = x # xs" | "\<not> LineTerminator x" "r \<in> set (dot_star xs)"
      by (auto split: if_splits)
    then show "\<exists>u. x # xs = u @ r \<and> (\<forall>c\<in>set u. \<not> LineTerminator c)"
    proof cases
      case 1
      then have "x # xs = [] @ r \<and> (\<forall>c\<in>set []. \<not> LineTerminator c)" by simp
      then show ?thesis by blast
    next
      case 2
      with Cons.IH obtain u where "xs = u @ r" "\<forall>c\<in>set u. \<not> LineTerminator c" by blast
      with 2 have "x # xs = (x # u) @ r \<and> (\<forall>c\<in>set (x # u). \<not> LineTerminator c)" by simp
      then show ?thesis by blast
    qed
  next
    assume "\<exists>u. x # xs = u @ r \<and> (\<forall>c\<in>set u. \<not> LineTerminator c)"
    then obtain u where u: "x # xs = u @ r" "\<forall>c\<in>set u. \<not> LineTerminator c" by blast
    show "r \<in> set (dot_star (x # xs))"
    proof (cases u)
      case Nil
      with u have "r = x # xs" by simp
      then show ?thesis by simp
    next
      case (Cons y ys)
      with u have "y = x" "xs = ys @ r" "\<not> LineTerminator x" "\<forall>c\<in>set ys. \<not> LineTerminator c"
        by auto
      with Cons.IH show ?thesis by auto
    qed
  qed
qed

lemma dot_star_all: "[] \<in> set (dot_star s) \<longleftrightarrow> (\<forall>c\<in>set s. \<not> LineTerminator c)"
  by (simp add: dot_star_iff)

lemma after_literal_end: "after (Cat (Lit t) End) r = (if r = t then [[]] else [])"
  by (auto simp add: prefix_def)

lemma lookahead_suffix:
  "after (Cat DotStar (Cat (Lit t) End)) s = [] \<longleftrightarrow>
     \<not> (\<exists>u. s = u @ t \<and> (\<forall>c\<in>set u. \<not> LineTerminator c))"
proof -
  have "after (Cat DotStar (Cat (Lit t) End)) s = concat (map (after (Cat (Lit t) End)) (dot_star s))"
    by simp
  also have "\<dots> = [] \<longleftrightarrow> (\<forall>r\<in>set (dot_star s). after (Cat (Lit t) End) r = [])"
    by simp
  also have "\<dots> \<longleftrightarrow> t \<notin> set (dot_star s)"
    unfolding after_literal_end by auto
  finally show ?thesis
    by (simp add: dot_star_iff)
qed

lemma config_matcher_iff:
  "matches config_matcher p \<longleftrightarrow>
     (\<exists>rest. p = CHR ''/'' # rest
        \<and> \<not> prefix ''api'' rest \<and> \<not> prefix ''_next/static'' rest \<and> \<not> prefix ''_next/image'' rest
        \<and> \<not> (\<exists>u. rest = u @ ''.png'' \<and> (\<forall>c\<in>set u. \<not> LineTerminator c))
        \<and> (\<forall>c\<in>set rest. \<not> LineTerminator c))"
proof (cases p)
  case Nil
  then show ?thesis
    by (simp add: matches_def config_matcher_def)
next
  case (Cons x rest)
  let ?L = "Alt (Lit ''api'') (Alt (Lit ''_next/static'') (Alt (Lit ''_next/image'')
              (Cat DotStar (Cat (Lit ''.png'') End))))"
  have L: "after ?L rest = [] \<longleftrightarrow>
     \<not> prefix ''api'' rest \<and> \<not> prefix ''_next/static'' rest \<and> \<not> prefix ''_next/image'' rest
        \<and> \<not> (\<exists>u. rest = u @ ''.png'' \<and> (\<forall>c\<in>set u. \<not> LineTerminator c))"
    using lookahead_suffix [of "''.png''" rest] by simp
  show ?thesis
  proof (cases "x = CHR ''/''")
    case False
    with Cons show ?thesis
      by (simp add: matches_def config_matcher_def)
  next
    case True
    have "matches config_matcher p \<longleftrightarrow> [] \<in> set (after (Cat (NegLookahead ?L) DotStar) rest)"
      using Cons True by (simp add: matches_def config_matcher_def)
    also have "\<dots> \<longleftrightarrow> after ?L rest = [] \<and> [] \<in> set (dot_star rest)"
      by simp
    finally show ?thesis
      using Cons True by (simp only: L dot_star_all) auto
  qed
qed

lemma denied_not_matched:
  assumes "prefix ''/api'' p \<or> prefix ''/_next/static'' p \<or> prefix ''/_next/image'' p \<or> suffix ''.png'' p"
  shows "\<not> matches config_matcher p"
proof
  assume "matches config_matcher p"
  then obtain rest where r: "p = CHR ''/'' # rest"
    "\<not> prefix ''api'' rest" "\<not> prefix ''_next/static'' rest" "\<not> prefix ''_next/image'' rest"
    "\<not> (\<exists>u. rest = u @ ''.png'' \<and> (\<forall>c\<in>set u. \<not> LineTerminator c))"
    "\<forall>c\<in>set rest. \<not> LineTerminator c"
    unfolding config_matcher_iff by blast
  from assms r(1-4) have "suffix ''.png'' p" by auto
  then obtain v where v: "p = v @ ''.png''" by (auto simp add: suffix_def)
  with r(1) obtain u where u: "v = CHR ''/'' # u" by (cases v) auto
  with v r(1) have "rest = u @ ''.png''" by simp
  moreover from this r(6) have "\<forall>c\<in>set u. \<not> LineTerminator c" by simp
  ultimately show False using r(5) by blast
qed

text \<open>
  C8. A request whose path is under \<^verbatim>\<open>/api\<close>, \<^verbatim>\<open>/_next/static\<close> or \<^verbatim>\<open>/_next/image\<close>, or
  ends in \<^verbatim>\<open>.png\<close>, passes without the guard being run, whatever the guard is: the state
  is untouched and the session token plays no part in the answer.
\<close>

theorem denied_paths_bypass_guard:
  assumes "pathname req = ''/api'' \<or> prefix ''/api/'' (pathname req)
         \<or> pathname req = ''/_next/static'' \<or> prefix ''/_next/static/'' (pathname req)
         \<or> pathname req = ''/_next/image'' \<or> prefix ''/_next/image/'' (pathname req)
         \<or> suffix ''.png'' (pathname req)"
  shows "middleware auth req s = (None, s)
       \<and> middleware auth (req\<lparr>session_token := t\<rparr>) s = (None, s)"
proof -
  have "prefix ''/api'' (pathname req) \<or> prefix ''/_next/static'' (pathname req)
        \<or> prefix ''/_next/image'' (pathname req) \<or> suffix ''.png'' (pathname req)"
    using assms by (auto simp add: prefix_def)
  then have "\<not> matches config_matcher (pathname req)"
    by (rule denied_not_matched)
  then show ?thesis
    by (simp add: middleware_def)
qed

text \<open>
  A static asset and an image pass a guard that would have recorded the request; the
  dashboard does not.
\<close>

theorem denied_paths_bypass_guard_witness:
  "middleware recording_guard
     \<lparr>pathname = ''/_next/static/chunks/main.js'', session_token = Some ''token''\<rparr> [] = (None, [])
   \<and> middleware recording_guard
     \<lparr>pathname = ''/customers/amy-burns.png'', session_token = None\<rparr> [] = (None, [])
   \<and> middleware recording_guard \<lparr>pathname = ''/dashboard'', session_token = Some ''token''\<rparr> [] =
       (Some True, [''/dashboard''])"
proof -
  have 1: "middleware recording_guard
     \<lparr>pathname = ''/_next/static/chunks/main.js'', session_token = Some ''token''\<rparr> [] = (None, [])"
    using denied_paths_bypass_guard [where auth = recording_guard and s = "[]"
        and req = "\<lparr>pathname = ''/_next/static/chunks/main.js'', session_token = Some ''token''\<rparr>"]
    by simp
  have 2: "middleware recording_guard
     \<lparr>pathname = ''/customers/amy-burns.png'', session_token = None\<rparr> [] = (None, [])"
    using denied_paths_bypass_guard [where auth = recording_guard and s = "[]"
        and req = "\<lparr>pathname = ''/customers/amy-burns.png'', session_token = None\<rparr>"]
    by (simp add: suffix_def)
  have "matches config_matcher ''/dashboard''"
    by code_simp
  then have 3: "middleware recording_guard \<lparr>pathname = ''/dashboard'', session_token = Some ''token''\<rparr> [] =
       (Some True, [''/dashboard''])"
    by (simp add: middleware_def recording_guard_def)
  from 1 2 3 show ?thesis by blast
qed

text \<open>
  C10. The entries of the matcher are tested as prefixes of the text after the leading
  slash, not as path segments: every path that starts with \<^verbatim>\<open>/api\<close>, \<^verbatim>\<open>/_next/static\<close> or
  \<^verbatim>\<open>/_next/image\<close>, whatever follows, and every path that ends in \<^verbatim>\<open>.png\<close>, in whatever
  directory, is not matched and passes without the guard.
\<close>

theorem matcher_entries_are_raw_prefixes:
  assumes "prefix ''/api'' p \<or> prefix ''/_next/static'' p \<or> prefix ''/_next/image'' p \<or> suffix ''.png'' p"
  shows "\<not> matches config_matcher p
       \<and> middleware auth \<lparr>pathname = p, session_token = t\<rparr> s = (None, s)"
proof -
  have "\<not> matches config_matcher p"
    using assms by (rule denied_not_matched)
  then show ?thesis
    by (simp add: middleware_def)
qed

text \<open>
  \<^verbatim>\<open>/apiary\<close> is no API route and \<^verbatim>\<open>/_next/imagery\<close> is no image route, yet both pass;
  \<^verbatim>\<open>api\<close> as a later segment does not.
\<close>

theorem matcher_entries_are_raw_prefixes_witness:
  "\<not> matches config_matcher ''/apiary''
   \<and> middleware recording_guard \<lparr>pathname = ''/apiary'', session_token = None\<rparr> [] = (None, [])
   \<and> \<not> matches config_matcher ''/_next/imagery/cat.jpg''
   \<and> \<not> matches config_matcher ''/dashboard/customers/avatar.png''
   \<and> matches config_matcher ''/dashboard/api''"
proof -
  have 1: "\<not> matches config_matcher ''/apiary''
     \<and> middleware recording_guard \<lparr>pathname = ''/apiary'', session_token = None\<rparr> [] = (None, [])"
    using matcher_entries_are_raw_prefixes [where p = "''/apiary''" and auth = recording_guard
        and t = None and s = "[]"]
    by simp
  have 2: "\<not> matches config_matcher ''/_next/imagery/cat.jpg''"
    using matcher_entries_are_raw_prefixes [where p = "''/_next/imagery/cat.jpg''"
        and auth = recording_guard and t = None and s = "[]"]
    by simp
  have 3: "\<not> matches config_matcher ''/dashboard/customers/avatar.png''"
    using matcher_entries_are_raw_prefixes [where p = "''/dashboard/customers/avatar.png''"
        and auth = recording_guard and t = None and s = "[]"]
    by (simp add: suffix_def)
  have 4: "matches config_matcher ''/dashboard/api''"
    by code_simp
  from 1 2 3 4 show ?thesis by blast
qed

end
